theory Spec2Isabelle
  imports Main "HOL-Library.Word"
begin

section \<open>Values, errors and the effects of the client\<close>

text \<open>
  Byte arrays (\<open>Uint8Array\<close>) are lists of 8-bit words, hex strings (\<open>Hex\<close>) are strings,
  \<open>bigint\<close> is \<open>int\<close>. A \<open>number\<close> that the code uses as a counter or an identifier is
  an \<open>int\<close>; fractional and non-finite numbers are outside the model.
\<close>

type_synonym bytes = "8 word list"
type_synonym hex = string

text \<open>The method name is the field \<open>rpc_method\<close>. The values that travel through \<open>BaseClient.request\<close>: parameters and responses.\<close>

datatype jsval = JUndefined | JNum int | JBool bool | JStr string | JObj string

text \<open>
  Everything the code can throw. \<open>Error m\<close> is \<open>new Error(m)\<close>, which carries a
  message and no cause; \<open>Thrown t\<close> is a value thrown by a collaborator (the transport,
  the codec); \<open>BlockNotFoundError b c\<close> carries the block identifier and the cause. The
  last two are error names of the specification.
\<close>

datatype error =
    Error string
  | Thrown string
  | BlockNotFoundError hex error
  | MissingSignature
  | InvalidShardId

fun cause :: "error \<Rightarrow> error option" where
  "cause (BlockNotFoundError b c) = Some c"
| "cause e = None"

record rpc_request =
  rpc_method :: string
  params :: "jsval list"

record receipt =
  success :: bool

record envelope =
  isDeploy :: bool
  to :: bytes
  chainId :: int
  seqno :: int
  data :: bytes
  authData :: bytes

text \<open>
  What the model records of a run: every call of \<open>BaseClient.request\<close>, every wait
  for a receipt chain, every sleep (in milliseconds).
\<close>

datatype event = Request rpc_request | Wait int hex | Sleep nat

record 'w st =
  world :: 'w
  trace :: "event list"

text \<open>
  The collaborators whose code is not part of the modelled files are parameters: the
  transport behind \<open>BaseClient.request\<close>, \<open>waitTillCompleted\<close> raced against the
  ten-second timer (the winner of the race is the result, \<open>[]\<close> when the timer wins),
  the ABI codec applied to the faucet's \<open>withdrawTo\<close> entry, the hex helpers, the
  envelope's \<open>encode\<close> and \<open>hash\<close>, and \<open>assertIsValidShardId\<close> (\<open>None\<close> when the
  assertion passes). The codec, the number parser and \<open>encode\<close> may throw; the
  other helpers are taken as total on the strings and bytes the code hands them.
  \<open>bytesToHex\<close> is the one of the client's encoding module, \<open>viem_bytesToHex\<close> the
  one the faucet imports.
\<close>

record 'w env =
  request :: "rpc_request \<Rightarrow> 'w \<Rightarrow> (error + jsval) \<times> 'w"
  waitTillCompleted :: "int \<Rightarrow> hex \<Rightarrow> 'w \<Rightarrow> (error + receipt list) \<times> 'w"
  encodeFunctionData :: "hex \<Rightarrow> int \<Rightarrow> error + hex"
  toLowerCase :: "string \<Rightarrow> string"
  hexToBytes :: "hex \<Rightarrow> bytes"
  hexToNumber :: "jsval \<Rightarrow> error + int"
  bytesToHex :: "bytes \<Rightarrow> hex"
  viem_bytesToHex :: "bytes \<Rightarrow> hex"
  addHexPrefix :: "hex \<Rightarrow> hex"
  getShardIdFromAddress :: "hex \<Rightarrow> int"
  encode :: "envelope \<Rightarrow> error + bytes"
  hash :: "envelope \<Rightarrow> bytes"
  assertIsValidShardId :: "int option \<Rightarrow> error option"

definition do_request :: "'w env \<Rightarrow> rpc_request \<Rightarrow> 'w st \<Rightarrow> (error + jsval) \<times> 'w st" where
  "do_request E rq s =
     (case request E rq (world s) of
        (r, w') \<Rightarrow> (r, \<lparr>world = w', trace = trace s @ [Request rq]\<rparr>))"

definition do_wait :: "'w env \<Rightarrow> int \<Rightarrow> hex \<Rightarrow> 'w st \<Rightarrow> (error + receipt list) \<times> 'w st" where
  "do_wait E sh h s =
     (case waitTillCompleted E sh h (world s) of
        (r, w') \<Rightarrow> (r, \<lparr>world = w', trace = trace s @ [Wait sh h]\<rparr>))"

definition sleep :: "nat \<Rightarrow> 'w st \<Rightarrow> 'w st" where
  "sleep ms s = s\<lparr>trace := trace s @ [Sleep ms]\<rparr>"

section \<open>PublicClient\<close>

record client =
  shardId :: "int option"

definition shard_param :: "int option \<Rightarrow> jsval" where
  "shard_param sh = (case sh of None \<Rightarrow> JUndefined | Some n \<Rightarrow> JNum n)"

text \<open>
  \<open>getBlockByHash(hash, fullTx = false, shardId = this.shardId)\<close>: an argument left
  out is \<open>None\<close> and takes its default. The assertion on the shard runs before the
  \<open>try\<close>; only a failure of the request is turned into \<open>BlockNotFoundError\<close>.
\<close>

definition fullTx_or_default :: "bool option \<Rightarrow> bool" where
  "fullTx_or_default fullTx_arg = (case fullTx_arg of None \<Rightarrow> False | Some b \<Rightarrow> b)"

definition shardId_or_default :: "client \<Rightarrow> int option \<Rightarrow> int option" where
  "shardId_or_default C shardId_arg = (case shardId_arg of None \<Rightarrow> shardId C | Some n \<Rightarrow> Some n)"

definition getBlockByHash ::
  "'w env \<Rightarrow> client \<Rightarrow> hex \<Rightarrow> bool option \<Rightarrow> int option \<Rightarrow> 'w st \<Rightarrow> (error + jsval) \<times> 'w st" where
  "getBlockByHash E C h fullTx_arg shardId_arg s =
     (let fullTx = fullTx_or_default fullTx_arg;
          sh = shardId_or_default C shardId_arg
      in case assertIsValidShardId E sh of
           Some e \<Rightarrow> (Inl e, s)
         | None \<Rightarrow>
             (case do_request E \<lparr>rpc_method = ''eth_getBlockByHash'',
                                 params = [shard_param sh, JStr h, JBool fullTx]\<rparr> s of
                (Inr b, s') \<Rightarrow> (Inr b, s')
              | (Inl e, s') \<Rightarrow> (Inl (BlockNotFoundError h e), s')))"

definition getBlockByNumber ::
  "'w env \<Rightarrow> client \<Rightarrow> hex \<Rightarrow> bool option \<Rightarrow> int option \<Rightarrow> 'w st \<Rightarrow> (error + jsval) \<times> 'w st" where
  "getBlockByNumber E C blockNumber fullTx_arg shardId_arg s =
     (let fullTx = fullTx_or_default fullTx_arg;
          sh = shardId_or_default C shardId_arg
      in case assertIsValidShardId E sh of
           Some e \<Rightarrow> (Inl e, s)
         | None \<Rightarrow>
             (case do_request E \<lparr>rpc_method = ''eth_getBlockByNumber'',
                                 params = [shard_param sh, JStr blockNumber, JBool fullTx]\<rparr> s of
                (Inr b, s') \<Rightarrow> (Inr b, s')
              | (Inl e, s') \<Rightarrow> (Inl (BlockNotFoundError blockNumber e), s')))"

definition getMessageCount ::
  "'w env \<Rightarrow> client \<Rightarrow> hex \<Rightarrow> string \<Rightarrow> 'w st \<Rightarrow> (error + int) \<times> 'w st" where
  "getMessageCount E C address blockNumberOrHash s =
     (case do_request E \<lparr>rpc_method = ''eth_getTransactionCount'',
                         params = [JStr address, JStr blockNumberOrHash]\<rparr> s of
        (Inl e, s') \<Rightarrow> (Inl e, s')
      | (Inr res, s') \<Rightarrow> (hexToNumber E res, s'))"

text \<open>\<open>sendRawMessage\<close> takes a hex string (\<open>Inl\<close>) or a byte array (\<open>Inr\<close>).\<close>

definition sendRawMessage ::
  "'w env \<Rightarrow> client \<Rightarrow> hex + bytes \<Rightarrow> 'w st \<Rightarrow> (error + jsval) \<times> 'w st" where
  "sendRawMessage E C message s =
     do_request E \<lparr>rpc_method = ''eth_sendRawTransaction'',
                   params = [case message of
                               Inl m \<Rightarrow> JStr m
                             | Inr b \<Rightarrow> JStr (addHexPrefix E (bytesToHex E b))]\<rparr> s"

definition getGasPrice :: "'w env \<Rightarrow> client \<Rightarrow> 'w st \<Rightarrow> (error + int) \<times> 'w st" where
  "getGasPrice E C s = (let stubGasPrice = 1 in (Inr stubGasPrice, s))"

definition estimateGasLimit :: "'w env \<Rightarrow> client \<Rightarrow> 'w st \<Rightarrow> (error + int) \<times> 'w st" where
  "estimateGasLimit E C s = (let stubGasLimit = 1000000 in (Inr stubGasLimit, s))"

definition client_chainId :: "'w env \<Rightarrow> client \<Rightarrow> 'w st \<Rightarrow> (error + int) \<times> 'w st" where
  "client_chainId E C s =
     (case do_request E \<lparr>rpc_method = ''eth_chainId'', params = []\<rparr> s of
        (Inl e, s') \<Rightarrow> (Inl e, s')
      | (Inr res, s') \<Rightarrow> (hexToNumber E res, s'))"

section \<open>Faucet\<close>

definition Faucet_address :: hex where
  "Faucet_address = ''0x000100000000000000000000000000000FA00CE7''"

text \<open>
  \<open>Promise.all([seqno ?? getMessageCount(Faucet.address, "latest"), chainId()])\<close>:
  both requests are issued, in this order, before either is awaited, so both reach the
  trace also when the first fails; the promise rejects when either does (the model
  reports the first one's error when both fail). A given \<open>seqno\<close> replaces the first
  request.
\<close>

definition fetch_seqno_chainId ::
  "'w env \<Rightarrow> client \<Rightarrow> int option \<Rightarrow> 'w st \<Rightarrow> (error + int \<times> int) \<times> 'w st" where
  "fetch_seqno_chainId E C seqno_arg s =
     (case (case seqno_arg of
              Some n \<Rightarrow> (Inr n, s)
            | None \<Rightarrow> getMessageCount E C Faucet_address ''latest'' s) of
        (r1, s1) \<Rightarrow>
          (case client_chainId E C s1 of
             (r2, s2) \<Rightarrow>
               (case r1 of
                  Inl e \<Rightarrow> (Inl e, s2)
                | Inr refinedSeqno \<Rightarrow>
                    (case r2 of
                       Inl e \<Rightarrow> (Inl e, s2)
                     | Inr cid \<Rightarrow> (Inr (refinedSeqno, cid), s2)))))"

text \<open>The envelope both withdrawal functions construct.\<close>

definition faucet_message :: "'w env \<Rightarrow> hex \<Rightarrow> int \<Rightarrow> int \<Rightarrow> envelope" where
  "faucet_message E calldata refinedSeqno cid =
     \<lparr>isDeploy = False,
      to = hexToBytes E Faucet_address,
      chainId = cid,
      seqno = refinedSeqno,
      data = hexToBytes E calldata,
      authData = []\<rparr>"

text \<open>
  The statements the two functions share word for word: fetch, build the call data
  and the envelope, encode it, submit it. The result is the envelope that was
  submitted. Every step that throws ends the sequence with that error.
\<close>

definition submit_withdrawal ::
  "'w env \<Rightarrow> client \<Rightarrow> hex \<Rightarrow> int \<Rightarrow> int option \<Rightarrow> 'w st \<Rightarrow> (error + envelope) \<times> 'w st" where
  "submit_withdrawal E C address val seqno_arg s =
     (case fetch_seqno_chainId E C seqno_arg s of
        (Inl e, s1) \<Rightarrow> (Inl e, s1)
      | (Inr (refinedSeqno, cid), s1) \<Rightarrow>
          (case encodeFunctionData E (toLowerCase E address) val of
             Inl e \<Rightarrow> (Inl e, s1)
           | Inr calldata \<Rightarrow>
               (let message = faucet_message E calldata refinedSeqno cid
                in case encode E message of
                     Inl e \<Rightarrow> (Inl e, s1)
                   | Inr encodedMessage \<Rightarrow>
                       (case sendRawMessage E C (Inl (viem_bytesToHex E encodedMessage)) s1 of
                          (Inl e, s2) \<Rightarrow> (Inl e, s2)
                        | (Inr res, s2) \<Rightarrow> (Inr message, s2)))))"

definition value_or_default :: "int option \<Rightarrow> int" where
  "value_or_default value_arg = (case value_arg of None \<Rightarrow> 1000000000000000000 | Some v \<Rightarrow> v)"

definition withdrawTo ::
  "'w env \<Rightarrow> client \<Rightarrow> hex \<Rightarrow> int option \<Rightarrow> int option \<Rightarrow> 'w st \<Rightarrow> (error + bytes) \<times> 'w st" where
  "withdrawTo E C address value_arg seqno_arg s =
     (case submit_withdrawal E C address (value_or_default value_arg) seqno_arg s of
        (Inl e, s') \<Rightarrow> (Inl e, s')
      | (Inr message, s') \<Rightarrow> (Inr (hash E message), s'))"

text \<open>
  One pass through the \<open>try\<close> block of \<open>withdrawToWithRetry\<close>. \<open>collect\<close> runs it up
  to the receipts: the hash of the submitted envelope and the chain that the race
  against the timer produced. \<open>try_body\<close> then classifies the chain.
\<close>

definition collect ::
  "'w env \<Rightarrow> client \<Rightarrow> hex \<Rightarrow> int \<Rightarrow> 'w st \<Rightarrow> (error + hex \<times> receipt list) \<times> 'w st" where
  "collect E C address val s =
     (case submit_withdrawal E C address val None s of
        (Inl e, s1) \<Rightarrow> (Inl e, s1)
      | (Inr message, s1) \<Rightarrow>
          (let h = viem_bytesToHex E (hash E message)
           in case do_wait E (getShardIdFromAddress E Faucet_address) h s1 of
                (Inl e, s2) \<Rightarrow> (Inl e, s2)
              | (Inr receipts, s2) \<Rightarrow> (Inr (h, receipts), s2)))"

datatype outcome = Returned hex | Continue | Threw error

definition try_body :: "'w env \<Rightarrow> client \<Rightarrow> hex \<Rightarrow> int \<Rightarrow> 'w st \<Rightarrow> outcome \<times> 'w st" where
  "try_body E C address val s =
     (case collect E C address val s of
        (Inl e, s') \<Rightarrow> (Threw e, s')
      | (Inr (h, receipts), s') \<Rightarrow>
          (if length receipts = 0 then (Continue, s')
           else if list_ex (\<lambda>receipt. \<not> success receipt) receipts then (Continue, s')
           else (Returned h, s')))"

text \<open>
  The loop \<open>while (currentRetry++ < retry)\<close>: the comparison reads the counter before
  the increment, the body and the \<open>catch\<close> see it after. The \<open>catch\<close> sleeps a
  second, then rethrows when the counter has reached \<open>retry\<close>.
\<close>

function withdraw_loop ::
  "'w env \<Rightarrow> client \<Rightarrow> hex \<Rightarrow> int \<Rightarrow> int \<Rightarrow> int \<Rightarrow> 'w st \<Rightarrow> (error + hex) \<times> 'w st" where
  "withdraw_loop E C address val retry currentRetry s =
     (if currentRetry < retry then
        (case try_body E C address val s of
           (Returned h, s') \<Rightarrow> (Inr h, s')
         | (Continue, s') \<Rightarrow> withdraw_loop E C address val retry (currentRetry + 1) s'
         | (Threw e, s') \<Rightarrow>
             (let s'' = sleep 1000 s'
              in if currentRetry + 1 \<ge> retry then (Inl e, s'')
                 else withdraw_loop E C address val retry (currentRetry + 1) s''))
      else (Inl (Error ''Failed to withdraw to the given address''), s))"
  by pat_completeness auto
termination
  by (relation "measure (\<lambda>(E, C, address, val, retry, currentRetry, s). nat (retry - currentRetry))")
     auto

definition retry_or_default :: "int option \<Rightarrow> int" where
  "retry_or_default retry_arg = (case retry_arg of None \<Rightarrow> 5 | Some n \<Rightarrow> n)"

definition withdrawToWithRetry ::
  "'w env \<Rightarrow> client \<Rightarrow> hex \<Rightarrow> int option \<Rightarrow> int option \<Rightarrow> 'w st \<Rightarrow> (error + hex) \<times> 'w st" where
  "withdrawToWithRetry E C address value_arg retry_arg s =
     withdraw_loop E C address (value_or_default value_arg) (retry_or_default retry_arg) 0 s"

text \<open>The three requests of one withdrawal, as the client's methods issue them.\<close>

definition rq_count :: rpc_request where
  "rq_count = \<lparr>rpc_method = ''eth_getTransactionCount'',
                params = [JStr Faucet_address, JStr ''latest'']\<rparr>"

definition rq_chain :: rpc_request where
  "rq_chain = \<lparr>rpc_method = ''eth_chainId'', params = []\<rparr>"

definition rq_send :: "hex \<Rightarrow> rpc_request" where
  "rq_send m = \<lparr>rpc_method = ''eth_sendRawTransaction'', params = [JStr m]\<rparr>"

text \<open>The submissions in a trace: the requests of method \<open>eth_sendRawTransaction\<close>.\<close>

fun is_submission :: "event \<Rightarrow> bool" where
  "is_submission (Request rq) = (rpc_method rq = ''eth_sendRawTransaction'')"
| "is_submission e = False"

definition submissions :: "event list \<Rightarrow> nat" where
  "submissions tr = length (filter is_submission tr)"

text \<open>
  The state after \<open>k\<close> passes in a row that did not return (the sleep of the \<open>catch\<close>
  included); \<open>None\<close> when one of them returned.
\<close>

fun failed_attempts ::
  "'w env \<Rightarrow> client \<Rightarrow> hex \<Rightarrow> int \<Rightarrow> nat \<Rightarrow> 'w st \<Rightarrow> 'w st option" where
  "failed_attempts E C address val 0 s = Some s"
| "failed_attempts E C address val (Suc k) s =
     (case try_body E C address val s of
        (Returned h, s') \<Rightarrow> None
      | (Continue, s') \<Rightarrow> failed_attempts E C address val k s'
      | (Threw e, s') \<Rightarrow> failed_attempts E C address val k (sleep 1000 s'))"

section \<open>Address derivation\<close>

text \<open>
  Modelled from the spec: the address derivation (\<open>deriveAddress\<close>,
  \<open>WalletV1.calculateWalletAddress\<close>) is not among the source files; only its callers
  are. The address is the shard identifier in the leading bytes followed by a
  truncated digest of (shard, public key, salt, init code); the derivation fails with
  \<open>InvalidShardId\<close> outside the shard range. The digest is a parameter. The width of
  the shard field, two bytes in big-endian order, is the one of \<open>Faucet.address\<close>
  (shard 1, then eighteen bytes), and the shard range is what fits in it.
\<close>

definition isValidShardId :: "int \<Rightarrow> bool" where
  "isValidShardId sh = (0 \<le> sh \<and> sh < 65536)"

text \<open>Modelled from the spec: the shard identifier as the two leading bytes of an address
  (the function that writes them is not among the source files).\<close>

definition shard_field :: "int \<Rightarrow> bytes" where
  "shard_field sh = [word_of_int (sh div 256), word_of_int (sh mod 256)]"

text \<open>Modelled from the spec: the shard embedded in an address, read from its leading bytes
  (\<open>getShardIdFromAddress\<close> is imported by the faucet, its code is not among the source
  files).\<close>

fun shard_of :: "bytes \<Rightarrow> int option" where
  "shard_of (b0 # b1 # rest) = Some (uint b0 * 256 + uint b1)"
| "shard_of rest = None"

text \<open>Modelled from the spec: \<open>deriveAddress\<close>, not among the source files.\<close>

definition deriveAddress ::
  "(int \<times> bytes \<times> int \<times> bytes \<Rightarrow> bytes) \<Rightarrow> bytes \<Rightarrow> int \<Rightarrow> int \<Rightarrow> bytes \<Rightarrow> error + bytes" where
  "deriveAddress digest publicKey sh salt initCode =
     (if \<not> isValidShardId sh then Inl InvalidShardId
      else Inr (shard_field sh @ take 18 (digest (sh, publicKey, salt, initCode))))"

text \<open>Modelled from the spec: \<open>WalletV1.calculateWalletAddress\<close>, not among the source
  files; the derivation for the wallet's own code, with no further init code.\<close>

definition calculateWalletAddress ::
  "(int \<times> bytes \<times> int \<times> bytes \<Rightarrow> bytes) \<Rightarrow> bytes \<Rightarrow> int \<Rightarrow> int \<Rightarrow> error + bytes" where
  "calculateWalletAddress digest pubKey sh salt = deriveAddress digest pubKey sh salt []"

section \<open>A simulated node for concrete runs\<close>

text \<open>
  Stand-ins for the collaborators, used where a property is evaluated on a concrete
  run: hexadecimal helpers, a flat serialization of the fields, and a node whose answers
  the two arguments fix. The world is a counter the node may advance.
\<close>

definition hex_digit :: "char \<Rightarrow> nat" where
  "hex_digit c =
     (let n = of_char c :: nat
      in if 48 \<le> n \<and> n \<le> 57 then n - 48
         else if 97 \<le> n \<and> n \<le> 102 then n - 87
         else if 65 \<le> n \<and> n \<le> 70 then n - 55
         else 0)"

definition digit_hex :: "nat \<Rightarrow> char" where
  "digit_hex n = (if n < 16 then ''0123456789abcdef'' ! n else CHR ''?'')"

definition sim_hexToNumber :: "jsval \<Rightarrow> error + int" where
  "sim_hexToNumber v =
     (case v of
        JStr h \<Rightarrow> Inr (int (foldl (\<lambda>acc c. 16 * acc + hex_digit c) 0 (drop 2 h)))
      | other \<Rightarrow> Inl (Thrown ''not a hex string''))"

fun hex_pairs :: "string \<Rightarrow> bytes" where
  "hex_pairs (a # b # rest) = of_nat (16 * hex_digit a + hex_digit b) # hex_pairs rest"
| "hex_pairs rest = []"

definition sim_hexToBytes :: "hex \<Rightarrow> bytes" where
  "sim_hexToBytes h = hex_pairs (drop 2 h)"

definition sim_bytesToHex :: "bytes \<Rightarrow> hex" where
  "sim_bytesToHex b =
     ''0x'' @ concat (map (\<lambda>w. [digit_hex (unat w div 16), digit_hex (unat w mod 16)]) b)"

definition lower_char :: "char \<Rightarrow> char" where
  "lower_char c =
     (case map_of (zip ''ABCDEFGHIJKLMNOPQRSTUVWXYZ'' ''abcdefghijklmnopqrstuvwxyz'') c of
        None \<Rightarrow> c
      | Some d \<Rightarrow> d)"

definition sim_toLowerCase :: "string \<Rightarrow> string" where
  "sim_toLowerCase str = map lower_char str"

definition sim_serialize :: "envelope \<Rightarrow> bytes" where
  "sim_serialize e =
     (if isDeploy e then 1 else 0) # word_of_int (chainId e) # word_of_int (seqno e)
       # to e @ data e @ authData e"

definition sim_env ::
  "(rpc_request \<Rightarrow> nat \<Rightarrow> (error + jsval) \<times> nat) \<Rightarrow>
   (int \<Rightarrow> hex \<Rightarrow> nat \<Rightarrow> (error + receipt list) \<times> nat) \<Rightarrow> nat env" where
  "sim_env rq wt =
     \<lparr>request = rq,
      waitTillCompleted = wt,
      encodeFunctionData = (\<lambda>a v. Inr (''0xf3'' @ drop 2 a)),
      toLowerCase = sim_toLowerCase,
      hexToBytes = sim_hexToBytes,
      hexToNumber = sim_hexToNumber,
      bytesToHex = sim_bytesToHex,
      viem_bytesToHex = sim_bytesToHex,
      addHexPrefix = (\<lambda>h. if take 2 h = ''0x'' then h else ''0x'' @ h),
      getShardIdFromAddress = (\<lambda>h. case sim_hexToNumber (JStr (take 6 h)) of Inr n \<Rightarrow> n | Inl e \<Rightarrow> 0),
      encode = (\<lambda>e. Inr (sim_serialize e)),
      hash = (\<lambda>e. take 4 (sim_serialize e)),
      assertIsValidShardId =
        (\<lambda>sh. case sh of
                None \<Rightarrow> Some (Error ''Expected a valid shardId'')
              | Some n \<Rightarrow> if isValidShardId n then None else Some (Error ''Expected a valid shardId''))\<rparr>"

text \<open>The node answers every request with \<open>0x7\<close>.\<close>

definition answering :: "rpc_request \<Rightarrow> nat \<Rightarrow> (error + jsval) \<times> nat" where
  "answering rq w = (Inr (JStr ''0x7''), w)"

text \<open>The transport is down: every request fails.\<close>

definition unreachable :: "rpc_request \<Rightarrow> nat \<Rightarrow> (error + jsval) \<times> nat" where
  "unreachable rq w = (Inl (Thrown ''fetch failed''), w)"

text \<open>Every chain holds one failed receipt; no chain before the deadline; the second
  chain is the first that succeeds.\<close>

definition E_rejecting :: "nat env" where
  "E_rejecting = sim_env answering (\<lambda>sh h w. (Inr [\<lparr>success = False\<rparr>], w))"

definition E_silent :: "nat env" where
  "E_silent = sim_env answering (\<lambda>sh h w. (Inr [], w))"

definition E_second :: "nat env" where
  "E_second = sim_env answering (\<lambda>sh h w. (Inr [\<lparr>success = (0 < w)\<rparr>], w + 1))"

definition E_down :: "nat env" where
  "E_down = sim_env unreachable (\<lambda>sh h w. (Inr [], w))"

definition client1 :: client where
  "client1 = \<lparr>shardId = Some 1\<rparr>"

definition s0 :: "nat st" where
  "s0 = \<lparr>world = 0, trace = []\<rparr>"

text \<open>The encoded envelope of a withdrawal to \<open>someone\<close> with sequence number and chain 7.\<close>

definition sent :: hex where
  "sent = ''0x000707000100000000000000000000000000000fa00ce7f30001ab''"




definition someone :: hex where
  "someone = ''0x0001AB''"

section \<open>Traces of one pass\<close>

declare withdraw_loop.simps [simp del]

lemma trace_do_request:
  "do_request E rq s = (r, s') \<Longrightarrow> trace s' = trace s @ [Request rq]"
  by (auto simp: do_request_def split: prod.splits)

lemma do_request_eq:
  "do_request E rq s = (fst (request E rq (world s)),
     \<lparr>world = snd (request E rq (world s)), trace = trace s @ [Request rq]\<rparr>)"
  by (simp add: do_request_def split: prod.splits)

lemma trace_fetch:
  "fetch_seqno_chainId E C None s = (r, s1) \<Longrightarrow>
     trace s1 = trace s @ [Request rq_count, Request rq_chain]"
  by (auto simp: fetch_seqno_chainId_def getMessageCount_def client_chainId_def do_request_eq
        rq_count_def rq_chain_def split: prod.splits sum.splits)

lemma fetch_values:
  "fetch_seqno_chainId E C None s = (Inr (n, c), s1) \<Longrightarrow>
     \<exists>v1 w1 v2 w2. request E rq_count (world s) = (Inr v1, w1) \<and> hexToNumber E v1 = Inr n \<and>
        request E rq_chain w1 = (Inr v2, w2) \<and> hexToNumber E v2 = Inr c \<and> world s1 = w2"
  by (auto simp: fetch_seqno_chainId_def getMessageCount_def client_chainId_def do_request_eq
        rq_count_def rq_chain_def prod_eq_iff split: prod.splits sum.splits)

lemma submit_Inr:
  "submit_withdrawal E C a v sq s = (Inr m, s') \<Longrightarrow>
     \<exists>n c cd b s1. fetch_seqno_chainId E C sq s = (Inr (n, c), s1) \<and>
        encodeFunctionData E (toLowerCase E a) v = Inr cd \<and>
        m = faucet_message E cd n c \<and> encode E m = Inr b \<and>
        trace s' = trace s1 @ [Request (rq_send (viem_bytesToHex E b))]"
  by (auto simp: submit_withdrawal_def sendRawMessage_def do_request_eq rq_send_def Let_def
        split: prod.splits sum.splits)

lemma submit_trace_prefix:
  "submit_withdrawal E C a v None s = (r, s') \<Longrightarrow>
     take 2 (drop (length (trace s)) (trace s')) = [Request rq_count, Request rq_chain]"
  by (auto simp: submit_withdrawal_def sendRawMessage_def do_request_eq Let_def
        dest!: trace_fetch split: prod.splits sum.splits)

lemma submissions_append [simp]:
  "submissions (xs @ ys) = submissions xs + submissions ys"
  by (simp add: submissions_def)

lemma submit_count:
  assumes "submit_withdrawal E C a v None s = (Inr m, s')"
  shows "submissions (trace s') = submissions (trace s) + 1"
proof -
  from submit_Inr [OF assms] obtain n c b s1 where
    f: "fetch_seqno_chainId E C None s = (Inr (n, c), s1)" and
    t: "trace s' = trace s1 @ [Request (rq_send (viem_bytesToHex E b))]"
    by blast
  from trace_fetch [OF f] t show ?thesis
    by (simp add: submissions_def rq_send_def rq_count_def rq_chain_def)
qed

lemma collect_count:
  assumes "collect E C a v s = (Inr (h, rs), s')"
  shows "submissions (trace s') = submissions (trace s) + 1"
proof -
  from assms obtain m s1 where
    sub: "submit_withdrawal E C a v None s = (Inr m, s1)" and
    w: "do_wait E (getShardIdFromAddress E Faucet_address) h s1 = (Inr rs, s')"
    by (auto simp: collect_def Let_def split: prod.splits sum.splits)
  from w have "trace s' = trace s1 @ [Wait (getShardIdFromAddress E Faucet_address) h]"
    by (auto simp: do_wait_def split: prod.splits)
  with submit_count [OF sub] show ?thesis
    by (simp add: submissions_def)
qed

lemma try_body_classify:
  assumes "collect E C a v s = (Inr (h, rs), s')"
  shows "try_body E C a v s =
           (if rs \<noteq> [] \<and> (\<forall>r \<in> set rs. success r) then Returned h else Continue, s')"
  using assms by (auto simp: try_body_def list_ex_iff)

lemma try_body_threw:
  "collect E C a v s = (Inl e, s') \<Longrightarrow> try_body E C a v s = (Threw e, s')"
  by (simp add: try_body_def)

lemma loop_unconfirmed:
  assumes always: "\<And>s. \<exists>h rs s'. collect E C a v s = (Inr (h, rs), s') \<and>
                      (rs = [] \<or> (\<exists>r \<in> set rs. \<not> success r))"
  shows "nat (retry - cur) = k \<Longrightarrow>
         \<exists>s'. withdraw_loop E C a v retry cur s =
                 (Inl (Error ''Failed to withdraw to the given address''), s') \<and>
              submissions (trace s') = submissions (trace s) + k"
proof (induction k arbitrary: cur s)
  case 0
  then have "\<not> cur < retry" by simp
  then show ?case by (subst withdraw_loop.simps) simp
next
  case (Suc k)
  then have lt: "cur < retry" and k: "nat (retry - (cur + 1)) = k" by simp_all
  from always [of s] obtain h rs s1 where
    c: "collect E C a v s = (Inr (h, rs), s1)" and bad: "rs = [] \<or> (\<exists>r \<in> set rs. \<not> success r)"
    by blast
  from try_body_classify [OF c] bad have tb: "try_body E C a v s = (Continue, s1)"
    by auto
  from Suc.IH [OF k, of s1] obtain s' where
    l: "withdraw_loop E C a v retry (cur + 1) s1 =
          (Inl (Error ''Failed to withdraw to the given address''), s')" and
    n: "submissions (trace s') = submissions (trace s1) + k"
    by blast
  have "withdraw_loop E C a v retry cur s = withdraw_loop E C a v retry (cur + 1) s1"
    using lt tb by (subst withdraw_loop.simps) simp
  with l n collect_count [OF c] show ?case by simp
qed

lemma failed_attempts_loop:
  "failed_attempts E C a v k s = Some s1 \<Longrightarrow> cur + int k < retry \<Longrightarrow>
     withdraw_loop E C a v retry cur s = withdraw_loop E C a v retry (cur + int k) s1"
proof (induction k arbitrary: cur s)
  case 0
  then show ?case by simp
next
  case (Suc k)
  obtain r s2 where tb: "try_body E C a v s = (r, s2)" by (cases "try_body E C a v s")
  from Suc.prems have lt: "cur < retry" and lt': "(cur + 1) + int k < retry" by simp_all
  show ?case
  proof (cases r)
    case (Returned h)
    with Suc.prems tb show ?thesis by simp
  next
    case Continue
    with Suc.prems tb have "failed_attempts E C a v k s2 = Some s1" by simp
    from Suc.IH [OF this lt'] have
      "withdraw_loop E C a v retry (cur + 1) s2 = withdraw_loop E C a v retry (cur + 1 + int k) s1" .
    moreover have "withdraw_loop E C a v retry cur s = withdraw_loop E C a v retry (cur + 1) s2"
      using lt tb Continue by (subst withdraw_loop.simps) simp
    moreover have "cur + 1 + int k = cur + int (Suc k)" by simp
    ultimately show ?thesis by simp
  next
    case (Threw e)
    with Suc.prems tb have "failed_attempts E C a v k (sleep 1000 s2) = Some s1" by simp
    from Suc.IH [OF this lt'] have
      "withdraw_loop E C a v retry (cur + 1) (sleep 1000 s2) =
         withdraw_loop E C a v retry (cur + 1 + int k) s1" .
    moreover have "withdraw_loop E C a v retry cur s =
                     withdraw_loop E C a v retry (cur + 1) (sleep 1000 s2)"
      using lt lt' tb Threw by (subst withdraw_loop.simps) (simp add: Let_def)
    moreover have "cur + 1 + int k = cur + int (Suc k)" by simp
    ultimately show ?thesis by simp
  qed
qed

section \<open>Properties of PublicClient\<close>

text \<open>
  C9: \<open>getGasPrice\<close> returns the constant 1 and \<open>estimateGasLimit\<close> the constant
  1000000, for every client, every collaborator and every state of the network, and
  neither issues a request: the state, and with it the trace of requests, is returned
  as it was.
\<close>

theorem gas_stubs_constant:
  "getGasPrice E C s = (Inr 1, s) \<and> estimateGasLimit E C s = (Inr 1000000, s)"
  by (simp add: getGasPrice_def estimateGasLimit_def)


text \<open>
  C10: \<open>getBlockByHash\<close> and \<open>getBlockByNumber\<close> issue their request once the shard
  has passed the assertion. Whenever that request fails, with whatever error \<open>e\<close>, the
  call fails with \<open>BlockNotFoundError\<close> carrying the requested block identifier and
  \<open>e\<close> as its cause: a failure of the transport is reported as a block that was not
  found.
\<close>

theorem block_lookup_failure:
  assumes "assertIsValidShardId E (shardId_or_default C sa) = None"
  shows "(fst (request E \<lparr>rpc_method = ''eth_getBlockByHash'',
                           params = [shard_param (shardId_or_default C sa), JStr b,
                                     JBool (fullTx_or_default fa)]\<rparr> (world s)) = Inl e
            \<longrightarrow> fst (getBlockByHash E C b fa sa s) = Inl (BlockNotFoundError b e)) \<and>
         (fst (request E \<lparr>rpc_method = ''eth_getBlockByNumber'',
                           params = [shard_param (shardId_or_default C sa), JStr b,
                                     JBool (fullTx_or_default fa)]\<rparr> (world s)) = Inl e
            \<longrightarrow> fst (getBlockByNumber E C b fa sa s) = Inl (BlockNotFoundError b e)) \<and>
         cause (BlockNotFoundError b e) = Some e"
  using assms
  by (simp add: getBlockByHash_def getBlockByNumber_def do_request_eq Let_def)

theorem block_lookup_failure_witness:
  "fst (getBlockByHash E_down client1 ''0xabc'' None None s0) =
     Inl (BlockNotFoundError ''0xabc'' (Thrown ''fetch failed'')) \<and>
   fst (getBlockByNumber E_down client1 ''0x10'' (Some True) (Some 2) s0) =
     Inl (BlockNotFoundError ''0x10'' (Thrown ''fetch failed''))"
proof -
  have v1: "assertIsValidShardId E_down (shardId_or_default client1 None) = None"
    and v2: "assertIsValidShardId E_down (shardId_or_default client1 (Some 2)) = None"
    by (simp_all add: E_down_def sim_env_def shardId_or_default_def client1_def isValidShardId_def)
  have f: "fst (request E_down rq w) = Inl (Thrown ''fetch failed'')" for rq w
    by (simp add: E_down_def sim_env_def unreachable_def)
  from block_lookup_failure [OF v1, of "''0xabc''" None s0 "Thrown ''fetch failed''"]
       block_lookup_failure [OF v2, of "''0x10''" "Some True" s0 "Thrown ''fetch failed''"] f
  show ?thesis by simp
qed

section \<open>Properties of the retrying withdrawal\<close>

text \<open>
  C8: for every retry value \<open>n \<le> 0\<close>, \<open>withdrawToWithRetry\<close> fails at once with the
  generic error of the exhausted loop. The state comes back as it was: nothing was
  added to the trace, so no sequence number was fetched and nothing was submitted, and
  the body of the loop was not entered.
\<close>

theorem retry_nonpositive:
  "retry \<le> 0 \<Longrightarrow>
     withdrawToWithRetry E C a va (Some retry) s =
       (Inl (Error ''Failed to withdraw to the given address''), s)"
  by (simp add: withdrawToWithRetry_def retry_or_default_def withdraw_loop.simps)

theorem retry_nonpositive_witness:
  "withdrawToWithRetry E_down client1 someone None (Some (- 2)) s0 =
     (Inl (Error ''Failed to withdraw to the given address''), s0)"
  using retry_nonpositive [of "- 2" E_down client1 someone None s0] by simp

text \<open>
  C6: when a pass through the \<open>try\<close> block throws (a failing request, a failing wait,
  the codec), the function sleeps the fixed interval of 1000 ms; it then goes on with
  the next pass, except when the pass was the last that \<open>retry\<close> permits, in which
  case the error that was thrown is the error of the call.
\<close>

theorem transport_error_backoff:
  assumes "currentRetry < retry" and "collect E C a v s = (Inl e, s')"
  shows "withdraw_loop E C a v retry currentRetry s =
           (if retry \<le> currentRetry + 1 then (Inl e, sleep 1000 s')
            else withdraw_loop E C a v retry (currentRetry + 1) (sleep 1000 s'))"
  using assms try_body_threw [OF assms(2)]
  by (subst withdraw_loop.simps) (simp add: Let_def)

lemmas sim_defs = sim_env_def sim_hexToNumber_def sim_hexToBytes_def sim_bytesToHex_def
  sim_toLowerCase_def lower_char_def sim_serialize_def hex_digit_def digit_hex_def answering_def unreachable_def
  client1_def s0_def someone_def Faucet_address_def

lemmas run_defs = collect_def submit_withdrawal_def fetch_seqno_chainId_def getMessageCount_def
  client_chainId_def sendRawMessage_def do_request_def do_wait_def faucet_message_def sleep_def

lemma collect_down:
  "collect E_down client1 someone 5 s =
     (Inl (Thrown ''fetch failed''),
      \<lparr>world = world s, trace = trace s @ [Request rq_count, Request rq_chain]\<rparr>)"
  by (simp add: E_down_def run_defs sim_defs rq_count_def rq_chain_def)

theorem transport_error_backoff_witness:
  "withdraw_loop E_down client1 someone 5 2 0 s0 =
     (Inl (Thrown ''fetch failed''),
      \<lparr>world = 0,
       trace = [Request rq_count, Request rq_chain, Sleep 1000,
                Request rq_count, Request rq_chain, Sleep 1000]\<rparr>)"
proof -
  let ?s1 = "\<lparr>world = 0, trace = [Request rq_count, Request rq_chain, Sleep 1000]\<rparr> :: nat st"
  have first: "(0::int) < 2" and last: "(1::int) < 2" by simp_all
  from transport_error_backoff [OF first collect_down [of s0]]
  have "withdraw_loop E_down client1 someone 5 2 0 s0 = withdraw_loop E_down client1 someone 5 2 1 ?s1"
    by (simp add: sleep_def s0_def)
  also from transport_error_backoff [OF last collect_down [of ?s1]]
  have "withdraw_loop E_down client1 someone 5 2 1 ?s1 =
          (Inl (Thrown ''fetch failed''),
           \<lparr>world = 0,
            trace = [Request rq_count, Request rq_chain, Sleep 1000,
                     Request rq_count, Request rq_chain, Sleep 1000]\<rparr>)"
    by (simp add: sleep_def)
  finally show ?thesis .
qed

lemma collect_rejecting:
  "fst (collect E_rejecting client1 someone 5 s) = Inr (''0x00070700'', [\<lparr>success = False\<rparr>])"
  by (simp add: E_rejecting_def run_defs sim_defs Let_def)

text \<open>
  C3, as the code has it: for every \<open>n > 0\<close>, if every pass observes a receipt chain
  that is empty or holds a receipt with \<open>success = false\<close>, then exactly \<open>n\<close>
  submissions are made and the call fails with the generic
  \<open>Error("Failed to withdraw to the given address")\<close>, which carries no cause.
\<close>

theorem exhausted_after_n_submissions:
  assumes "0 < n"
    and always: "\<forall>s. \<exists>h rs. fst (collect E C a v s) = Inr (h, rs) \<and>
                   (rs = [] \<or> (\<exists>r \<in> set rs. \<not> success r))"
  shows "\<exists>s'. withdrawToWithRetry E C a (Some v) (Some n) s =
                 (Inl (Error ''Failed to withdraw to the given address''), s') \<and>
              submissions (trace s') = submissions (trace s) + nat n \<and>
              cause (Error ''Failed to withdraw to the given address'') = None"
proof -
  have "\<exists>h rs s'. collect E C a v s = (Inr (h, rs), s') \<and>
          (rs = [] \<or> (\<exists>r \<in> set rs. \<not> success r))" for s
    using always [rule_format, of s] by (cases "collect E C a v s") auto
  from loop_unconfirmed [of E C a v, OF this, of n 0 "nat n" s]
  show ?thesis
    by (simp add: withdrawToWithRetry_def value_or_default_def retry_or_default_def)
qed

theorem exhausted_after_n_submissions_witness:
  "\<exists>s'. withdrawToWithRetry E_rejecting client1 someone (Some 5) (Some 3) s0 =
           (Inl (Error ''Failed to withdraw to the given address''), s') \<and>
        submissions (trace s') = 3"
proof -
  have n: "(0::int) < 3" by simp
  have "\<forall>s. \<exists>h rs. fst (collect E_rejecting client1 someone 5 s) = Inr (h, rs) \<and>
          (rs = [] \<or> (\<exists>r \<in> set rs. \<not> success r))"
    by (simp add: collect_rejecting)
  from exhausted_after_n_submissions [OF n this, of s0] show ?thesis
    by (simp add: s0_def submissions_def)
qed

lemmas loop_defs = withdrawToWithRetry_def value_or_default_def retry_or_default_def
  try_body_def

text \<open>
  The claim as stated fails twice. With a budget of one pass and a transport that is
  down, the budget is exhausted and the error of the call is the transport's own, not
  the error of the exhausted loop. And the error of the exhausted loop is a plain
  \<open>Error\<close> with a message: it wraps no cause.
\<close>

theorem exhausted_error_counterexample:
  "fst (withdrawToWithRetry E_down client1 someone None (Some 1) s0) =
     Inl (Thrown ''fetch failed'') \<and>
   Thrown ''fetch failed'' \<noteq> Error ''Failed to withdraw to the given address'' \<and>
   fst (withdrawToWithRetry E_rejecting client1 someone None (Some 1) s0) =
     Inl (Error ''Failed to withdraw to the given address'') \<and>
   cause (Error ''Failed to withdraw to the given address'') = None"
  by (simp add: loop_defs withdraw_loop.simps E_down_def E_rejecting_def run_defs sim_defs Let_def)

lemma collect_hash:
  "collect E C a v s = (Inr (h, rs), s') \<Longrightarrow>
     \<exists>m s1. submit_withdrawal E C a v None s = (Inr m, s1) \<and> h = viem_bytesToHex E (hash E m)"
  by (auto simp: collect_def Let_def split: prod.splits sum.splits)

text \<open>
  C4: \<open>withdrawToWithRetry\<close> returns the hash of the first pass whose collected
  receipt chain is non-empty with \<open>success = true\<close> in every receipt, and stops
  there: the final state is the state after that pass. After \<open>k\<close> passes that did not
  return, a pass that collects the chain \<open>rs\<close> for the hash \<open>h\<close> returns exactly when
  \<open>rs\<close> is non-empty and all its receipts succeeded, and \<open>h\<close> is the hash of the
  envelope that this pass submitted.
\<close>

theorem first_success_returns:
  assumes "failed_attempts E C a v k s = Some s1"
    and "int k < retry"
    and "collect E C a v s1 = (Inr (h, rs), s2)"
  shows "(fst (try_body E C a v s1) = Returned h \<longleftrightarrow> rs \<noteq> [] \<and> (\<forall>r \<in> set rs. success r)) \<and>
         (rs \<noteq> [] \<and> (\<forall>r \<in> set rs. success r) \<longrightarrow>
            withdrawToWithRetry E C a (Some v) (Some retry) s = (Inr h, s2)) \<and>
         (\<exists>m s'. submit_withdrawal E C a v None s1 = (Inr m, s') \<and>
                  h = viem_bytesToHex E (hash E m))"
proof (intro conjI impI)
  show "fst (try_body E C a v s1) = Returned h \<longleftrightarrow> rs \<noteq> [] \<and> (\<forall>r \<in> set rs. success r)"
    by (simp add: try_body_classify [OF assms(3)])
next
  assume ok: "rs \<noteq> [] \<and> (\<forall>r \<in> set rs. success r)"
  with try_body_classify [OF assms(3)] have tb: "try_body E C a v s1 = (Returned h, s2)"
    by simp
  from assms(2) have lt: "0 + int k < retry" by simp
  have "withdraw_loop E C a v retry 0 s = withdraw_loop E C a v retry (0 + int k) s1"
    by (rule failed_attempts_loop [OF assms(1) lt])
  also have "\<dots> = (Inr h, s2)"
    using assms(2) tb by (subst withdraw_loop.simps) simp
  finally show "withdrawToWithRetry E C a (Some v) (Some retry) s = (Inr h, s2)"
    by (simp add: withdrawToWithRetry_def value_or_default_def retry_or_default_def)
next
  show "\<exists>m s'. submit_withdrawal E C a v None s1 = (Inr m, s') \<and>
                h = viem_bytesToHex E (hash E m)"
    by (rule collect_hash [OF assms(3)])
qed

lemma collect_second:
  "collect E_second client1 someone 5 s =
     (Inr (''0x00070700'', [\<lparr>success = (0 < world s)\<rparr>]),
      \<lparr>world = world s + 1,
       trace = trace s @ [Request rq_count, Request rq_chain, Request (rq_send sent),
                          Wait 1 ''0x00070700'']\<rparr>)"
  by (simp add: E_second_def run_defs sim_defs rq_count_def rq_chain_def rq_send_def sent_def Let_def)

theorem first_success_returns_witness:
  "withdrawToWithRetry E_second client1 someone (Some 5) (Some 3) s0 =
     (Inr ''0x00070700'',
      \<lparr>world = 2,
       trace = [Request rq_count, Request rq_chain, Request (rq_send sent), Wait 1 ''0x00070700'',
                Request rq_count, Request rq_chain, Request (rq_send sent), Wait 1 ''0x00070700'']\<rparr>)"
proof -
  let ?s1 = "\<lparr>world = 1,
              trace = [Request rq_count, Request rq_chain, Request (rq_send sent),
                       Wait 1 ''0x00070700'']\<rparr> :: nat st"
  have f: "failed_attempts E_second client1 someone 5 (Suc 0) s0 = Some ?s1"
    by (simp add: try_body_def collect_second s0_def)
  have k: "int (Suc 0) < 3" by simp
  from first_success_returns [OF f k collect_second [of ?s1]] show ?thesis
    by simp
qed

text \<open>
  C5, as the code has it: every pass first issues its own \<open>getMessageCount\<close> and
  \<open>chainId\<close> requests, and the envelope it encodes and submits is built anew from the
  sequence number and the chain identifier that these two requests returned in this
  pass. The code does not compare the encoding with that of the previous pass.
\<close>

theorem attempt_refetches:
  "take 2 (drop (length (trace s)) (trace (snd (try_body E C a v s)))) =
     [Request rq_count, Request rq_chain] \<and>
   (\<forall>m s'. submit_withdrawal E C a v None s = (Inr m, s') \<longrightarrow>
      (\<exists>v1 w1 v2 w2 cd b.
         request E rq_count (world s) = (Inr v1, w1) \<and> hexToNumber E v1 = Inr (seqno m) \<and>
         request E rq_chain w1 = (Inr v2, w2) \<and> hexToNumber E v2 = Inr (chainId m) \<and>
         encodeFunctionData E (toLowerCase E a) v = Inr cd \<and>
         m = faucet_message E cd (seqno m) (chainId m) \<and>
         encode E m = Inr b \<and>
         drop (length (trace s)) (trace s') =
           [Request rq_count, Request rq_chain, Request (rq_send (viem_bytesToHex E b))]))"
proof (intro conjI allI impI)
  obtain r s1 where sub: "submit_withdrawal E C a v None s = (r, s1)"
    by (cases "submit_withdrawal E C a v None s")
  from submit_trace_prefix [OF sub] have
    p: "take 2 (drop (length (trace s)) (trace s1)) = [Request rq_count, Request rq_chain]" .
  show "take 2 (drop (length (trace s)) (trace (snd (try_body E C a v s)))) =
          [Request rq_count, Request rq_chain]"
  proof (cases r)
    case (Inl e)
    with sub p show ?thesis by (simp add: try_body_def collect_def)
  next
    case (Inr m)
    from submit_Inr [OF sub [unfolded Inr]] obtain n c b s0' where
      f: "fetch_seqno_chainId E C None s = (Inr (n, c), s0')" and
      t: "trace s1 = trace s0' @ [Request (rq_send (viem_bytesToHex E b))]"
      by blast
    from trace_fetch [OF f] t have
      t1: "trace s1 = trace s @ [Request rq_count, Request rq_chain,
                                  Request (rq_send (viem_bytesToHex E b))]"
      by simp
    obtain rw s2 where w: "do_wait E (getShardIdFromAddress E Faucet_address)
                             (viem_bytesToHex E (hash E m)) s1 = (rw, s2)"
      by (cases "do_wait E (getShardIdFromAddress E Faucet_address)
                   (viem_bytesToHex E (hash E m)) s1")
    then have t2: "trace s2 = trace s1 @ [Wait (getShardIdFromAddress E Faucet_address)
                                            (viem_bytesToHex E (hash E m))]"
      by (auto simp: do_wait_def split: prod.splits)
    have "snd (try_body E C a v s) = s2"
      using sub Inr w by (auto simp: try_body_def collect_def Let_def split: sum.splits)
    with t1 t2 show ?thesis by simp
  qed
next
  fix m s'
  assume sub: "submit_withdrawal E C a v None s = (Inr m, s')"
  from submit_Inr [OF sub] obtain n c cd b s1 where
    f: "fetch_seqno_chainId E C None s = (Inr (n, c), s1)" and
    cd: "encodeFunctionData E (toLowerCase E a) v = Inr cd" and
    m: "m = faucet_message E cd n c" and
    b: "encode E m = Inr b" and
    t: "trace s' = trace s1 @ [Request (rq_send (viem_bytesToHex E b))]"
    by blast
  from fetch_values [OF f] obtain v1 w1 v2 w2 where
    r: "request E rq_count (world s) = (Inr v1, w1)" "hexToNumber E v1 = Inr n"
       "request E rq_chain w1 = (Inr v2, w2)" "hexToNumber E v2 = Inr c"
    by blast
  from m have nm: "seqno m = n" "chainId m = c" by (simp_all add: faucet_message_def)
  from trace_fetch [OF f] t have
    "drop (length (trace s)) (trace s') =
       [Request rq_count, Request rq_chain, Request (rq_send (viem_bytesToHex E b))]"
    by simp
  moreover from m nm have "m = faucet_message E cd (seqno m) (chainId m)" by simp
  moreover note r [unfolded nm [symmetric]] cd b
  ultimately
  show "\<exists>v1 w1 v2 w2 cd b.
         request E rq_count (world s) = (Inr v1, w1) \<and> hexToNumber E v1 = Inr (seqno m) \<and>
         request E rq_chain w1 = (Inr v2, w2) \<and> hexToNumber E v2 = Inr (chainId m) \<and>
         encodeFunctionData E (toLowerCase E a) v = Inr cd \<and>
         m = faucet_message E cd (seqno m) (chainId m) \<and>
         encode E m = Inr b \<and>
         drop (length (trace s)) (trace s') =
           [Request rq_count, Request rq_chain, Request (rq_send (viem_bytesToHex E b))]"
    by blast
qed

lemma collect_silent:
  "collect E_silent client1 someone 5 s =
     (Inr (''0x00070700'', []),
      \<lparr>world = world s,
       trace = trace s @ [Request rq_count, Request rq_chain, Request (rq_send sent),
                          Wait 1 ''0x00070700'']\<rparr>)"
  by (simp add: E_silent_def run_defs sim_defs rq_count_def rq_chain_def rq_send_def sent_def Let_def)

theorem attempt_refetches_witness:
  "\<exists>m s'. submit_withdrawal E_silent client1 someone 5 None s0 = (Inr m, s') \<and>
      seqno m = 7 \<and> chainId m = 7 \<and>
      drop (length (trace s0)) (trace s') =
           [Request rq_count, Request rq_chain, Request (rq_send sent)]"
proof -
  let ?m = "faucet_message E_silent ''0xf30001ab'' 7 7"
  let ?s = "\<lparr>world = 0, trace = [Request rq_count, Request rq_chain, Request (rq_send sent)]\<rparr> :: nat st"
  have sub: "submit_withdrawal E_silent client1 someone 5 None s0 = (Inr ?m, ?s)"
    by (simp add: E_silent_def run_defs sim_defs rq_count_def rq_chain_def rq_send_def sent_def Let_def)
  from attempt_refetches [of s0 E_silent client1 someone 5, THEN conjunct2, rule_format, OF sub]
  obtain b where "encode E_silent ?m = Inr b"
    "drop (length (trace s0)) (trace ?s) =
       [Request rq_count, Request rq_chain, Request (rq_send (viem_bytesToHex E_silent b))]"
    by blast
  with sub show ?thesis
    by (intro exI [of _ ?m] exI [of _ ?s]) (simp add: faucet_message_def s0_def)
qed

text \<open>
  The claim as stated fails: while the first message is unconfirmed the node reports
  the same sequence number, and the second pass submits the very bytes of the first.
\<close>

theorem resubmission_counterexample:
  "filter is_submission
     (trace (snd (withdrawToWithRetry E_silent client1 someone (Some 5) (Some 2) s0))) =
     [Request (rq_send sent), Request (rq_send sent)]"
  by (simp add: loop_defs withdraw_loop.simps collect_silent s0_def rq_send_def rq_count_def
        rq_chain_def)

section \<open>The faucet's unsigned envelope\<close>

lemma try_body_returned:
  "try_body E C a v s = (Returned h, s') \<Longrightarrow>
     \<exists>rs. collect E C a v s = (Inr (h, rs), s') \<and> rs \<noteq> [] \<and> (\<forall>r \<in> set rs. success r)"
  by (auto simp: try_body_def list_ex_iff split: prod.splits sum.splits if_splits)

lemma loop_returns:
  "nat (retry - cur) = k \<Longrightarrow> withdraw_loop E C a v retry cur s = (Inr h, s') \<Longrightarrow>
     \<exists>s1 rs. collect E C a v s1 = (Inr (h, rs), s') \<and> rs \<noteq> [] \<and> (\<forall>r \<in> set rs. success r)"
proof (induction k arbitrary: cur s)
  case 0
  then have "\<not> cur < retry" by simp
  with "0.prems"(2) show ?case by (subst (asm) withdraw_loop.simps) simp
next
  case (Suc k)
  then have lt: "cur < retry" and k: "nat (retry - (cur + 1)) = k" by simp_all
  obtain r s2 where tb: "try_body E C a v s = (r, s2)" by (cases "try_body E C a v s")
  show ?case
  proof (cases r)
    case (Returned h')
    with lt tb Suc.prems(2) have "h' = h" "s2 = s'"
      by (subst (asm) withdraw_loop.simps, simp)+
    with tb Returned try_body_returned [of E C a v s h s'] show ?thesis by blast
  next
    case Continue
    with lt tb Suc.prems(2) have "withdraw_loop E C a v retry (cur + 1) s2 = (Inr h, s')"
      by (subst (asm) withdraw_loop.simps) simp
    from Suc.IH [OF k this] show ?thesis .
  next
    case (Threw e)
    with lt tb Suc.prems(2) have
      "withdraw_loop E C a v retry (cur + 1) (sleep 1000 s2) = (Inr h, s')"
      by (subst (asm) withdraw_loop.simps) (simp add: Let_def split: if_splits)
    from Suc.IH [OF k this] show ?thesis .
  qed
qed

lemma submitted_unsigned:
  assumes "submit_withdrawal E C a v sq s = (Inr m, s')"
  shows "\<exists>cd n c b. encodeFunctionData E (toLowerCase E a) v = Inr cd \<and>
           m = faucet_message E cd n c \<and> encode E m = Inr b \<and>
           Request (rq_send (viem_bytesToHex E b)) \<in> set (trace s')"
proof -
  from submit_Inr [OF assms] obtain n c cd b s1 where
    "fetch_seqno_chainId E C sq s = (Inr (n, c), s1)"
    "encodeFunctionData E (toLowerCase E a) v = Inr cd" "m = faucet_message E cd n c"
    "encode E m = Inr b" "trace s' = trace s1 @ [Request (rq_send (viem_bytesToHex E b))]"
    by blast
  then show ?thesis by auto
qed

lemma collected_unsigned:
  assumes "collect E C a v s = (Inr (h, rs), s')"
  shows "\<exists>cd n c b. encodeFunctionData E (toLowerCase E a) v = Inr cd \<and>
           encode E (faucet_message E cd n c) = Inr b \<and>
           h = viem_bytesToHex E (hash E (faucet_message E cd n c)) \<and>
           Request (rq_send (viem_bytesToHex E b)) \<in> set (trace s')"
proof -
  from assms obtain m s1 where
    sub: "submit_withdrawal E C a v None s = (Inr m, s1)" and
    h: "h = viem_bytesToHex E (hash E m)" and
    w: "do_wait E (getShardIdFromAddress E Faucet_address) h s1 = (Inr rs, s')"
    by (auto simp: collect_def Let_def split: prod.splits sum.splits)
  from w have "trace s' = trace s1 @ [Wait (getShardIdFromAddress E Faucet_address) h]"
    by (auto simp: do_wait_def split: prod.splits)
  with submitted_unsigned [OF sub] h show ?thesis by auto
qed


text \<open>
  Under the rule that an envelope with data and empty \<open>authData\<close> fails to encode
  with \<open>MissingSignature\<close>, and with call data that is never empty, neither function
  can return the hash it documents.
\<close>

lemma signature_rule_blocks_withdrawal:
  assumes rule: "\<forall>e. (isDeploy e \<or> data e \<noteq> []) \<and> authData e = [] \<longrightarrow>
                   encode E e = Inl MissingSignature"
    and nonempty: "\<forall>cd. encodeFunctionData E (toLowerCase E a) (value_or_default va) = Inr cd \<longrightarrow>
                   hexToBytes E cd \<noteq> []"
  shows "withdrawTo E C a va sq s \<noteq> (Inr hb, s') \<and>
         withdrawToWithRetry E C a va ra s \<noteq> (Inr h, s')"
proof -
  have no: "encode E (faucet_message E cd n c) \<noteq> Inr b"
    if "encodeFunctionData E (toLowerCase E a) (value_or_default va) = Inr cd" for cd n c b
  proof -
    from nonempty that have "data (faucet_message E cd n c) \<noteq> []"
      by (simp add: faucet_message_def)
    with rule have "encode E (faucet_message E cd n c) = Inl MissingSignature"
      by (simp add: faucet_message_def)
    then show ?thesis by simp
  qed
  have "withdrawTo E C a va sq s \<noteq> (Inr hb, s')"
  proof
    assume "withdrawTo E C a va sq s = (Inr hb, s')"
    then obtain m where "submit_withdrawal E C a (value_or_default va) sq s = (Inr m, s')"
      by (auto simp: withdrawTo_def split: prod.splits sum.splits)
    from submitted_unsigned [OF this] no show False by blast
  qed
  moreover have "withdrawToWithRetry E C a va ra s \<noteq> (Inr h, s')"
  proof
    assume "withdrawToWithRetry E C a va ra s = (Inr h, s')"
    then have "withdraw_loop E C a (value_or_default va) (retry_or_default ra) 0 s = (Inr h, s')"
      by (simp add: withdrawToWithRetry_def)
    from loop_returns [OF refl this] obtain s1 rs where
      "collect E C a (value_or_default va) s1 = (Inr (h, rs), s')"
      by blast
    from collected_unsigned [OF this] no show False by blast
  qed
  ultimately show ?thesis ..
qed





section \<open>The shard field\<close>

lemma shard_of_field:
  assumes "isValidShardId sh"
  shows "shard_of (shard_field sh @ rest) = Some sh"
proof -
  from assms have r: "0 \<le> sh" "sh < 65536" by (simp_all add: isValidShardId_def)
  then have hi: "0 \<le> sh div 256" "sh div 256 < 256" by simp_all
  have lo: "0 \<le> sh mod 256" "sh mod 256 < 256" by simp_all
  have "uint (word_of_int (sh div 256) :: 8 word) = sh div 256"
    using hi by (simp add: uint_word_of_int take_bit_eq_mod)
  moreover have "uint (word_of_int (sh mod 256) :: 8 word) = sh mod 256"
    using lo by (simp add: uint_word_of_int take_bit_eq_mod)
  ultimately show ?thesis
    by (simp add: shard_field_def)
qed

section \<open>Properties of the derivation\<close>

text \<open>
  C1: for every valid triple (public key, shard, salt), the derivation is
  deterministic, equal inputs give the same address, and the shard read back from the
  leading bytes of the address is the shard that was passed.
\<close>

theorem derive_deterministic_shard:
  assumes "isValidShardId sh"
    and "pubkey' = pubkey" and "sh' = sh" and "salt' = salt"
  shows "deriveAddress digest pubkey' sh' salt' code = deriveAddress digest pubkey sh salt code \<and>
         calculateWalletAddress digest pubkey' sh' salt' = calculateWalletAddress digest pubkey sh salt \<and>
         (\<exists>a. deriveAddress digest pubkey sh salt code = Inr a \<and> shard_of a = Some sh) \<and>
         (\<exists>a. calculateWalletAddress digest pubkey sh salt = Inr a \<and> shard_of a = Some sh)"
  using assms shard_of_field [OF assms(1)]
  by (simp add: calculateWalletAddress_def deriveAddress_def)

theorem derive_deterministic_shard_witness:
  "calculateWalletAddress (\<lambda>x. replicate 32 7) [2, 3] 513 100 =
     Inr ([2, 1] @ replicate 18 7) \<and>
   shard_of ([2, 1] @ replicate 18 7) = Some 513"
proof -
  have v: "isValidShardId 513" by (simp add: isValidShardId_def)
  from derive_deterministic_shard [OF v refl refl refl, of "\<lambda>x. replicate 32 7" "[2, 3]" 100 "[]"]
  show ?thesis
    by (simp add: calculateWalletAddress_def deriveAddress_def shard_field_def isValidShardId_def)
qed

end
